theory Spec2Isabelle
  imports Main "HOL-Library.Code_Target_Numeral"
begin

section \<open>The NNTP client of go-nntp: a shallow embedding\<close>

text \<open>
  The theory embeds the NNTP client of package \<open>nntpclient\<close> (the \<open>Client\<close> type with
  \<open>Command\<close>, \<open>asLines\<close>, \<open>List\<close>, \<open>Group\<close>, \<open>Article\<close>/\<open>Head\<close>/\<open>Body\<close>,
  \<open>Authenticate\<close>, \<open>Capabilities\<close>, \<open>GetCapability\<close>, \<open>HasCapabilityArgument\<close>, \<open>Over\<close> and
  \<open>StartTLS\<close>) and proves or refutes the properties its specification states.

  Go strings are byte strings (\<open>string\<close>, a \<open>char list\<close>). A Go function returning
  \<open>(value, error)\<close> returns a pair whose second component is an \<open>error option\<close>
  (\<open>None\<close> is \<open>nil\<close>); a run-time panic is the outcome \<open>Panic\<close>. Methods on \<open>*Client\<close>
  take the client and return it updated.
\<close>

subsection \<open>Run-time values: panics and errors\<close>

datatype panic = IndexOutOfRange | SliceBoundsOutOfRange | NilDereference

datatype num_err = ErrSyntax | ErrRange

datatype error =
    EOF
  | ErrUnexpectedEOF
  | WriteFailed
  | TLSConfigError
  | ProtocolError string
  | CodeError int string
  | NumError string num_err
  | ErrorString string

datatype 'a exec = Panic panic | Ret 'a

subsection \<open>Package \<open>strings\<close>\<close>

text \<open>
  \<open>strings.Split(s, sep)\<close> for a one-byte separator: every occurrence of the separator
  ends a field, so the empty string gives one empty field and two adjacent separators an
  empty field between them.
\<close>

fun Split :: "string \<Rightarrow> char \<Rightarrow> string list" where
  "Split [] sep = [[]]"
| "Split (c # cs) sep =
     (if c = sep then [] # Split cs sep
      else (case Split cs sep of [] \<Rightarrow> [[c]] | p # ps \<Rightarrow> (c # p) # ps))"

text \<open>\<open>strings.SplitN(s, sep, 2)\<close>: split at the first separator only.\<close>

definition SplitN2 :: "string \<Rightarrow> char \<Rightarrow> string list" where
  "SplitN2 s sep =
     (if sep \<in> set s then [takeWhile (\<lambda>c. c \<noteq> sep) s, tl (dropWhile (\<lambda>c. c \<noteq> sep) s)]
      else [s])"

text \<open>\<open>strings.IndexAny(s, chars)\<close>: the index of the first byte of \<open>s\<close> that is in
  \<open>chars\<close>, or \<open>-1\<close>.\<close>

fun IndexAny :: "string \<Rightarrow> string \<Rightarrow> int" where
  "IndexAny [] chars = - 1"
| "IndexAny (c # cs) chars =
     (if c \<in> set chars then 0
      else (let i = IndexAny cs chars in if i = - 1 then - 1 else i + 1))"

text \<open>
  \<open>strings.ToUpper\<close> and \<open>strings.Fields\<close> on ASCII text, which is what NNTP capability
  lines are: the letters \<open>a\<close> to \<open>z\<close> are mapped to \<open>A\<close> to \<open>Z\<close>, and the white space that
  separates fields is tab, line feed, vertical tab, form feed, carriage return and space.
\<close>

definition upper_byte :: "char \<Rightarrow> char" where
  "upper_byte c =
     (let n = (of_char c :: nat) in if 97 \<le> n \<and> n \<le> 122 then char_of (n - 32) else c)"

definition ToUpper :: "string \<Rightarrow> string" where
  "ToUpper s = map upper_byte s"

definition is_space :: "char \<Rightarrow> bool" where
  "is_space c = (c \<in> set [CHR 0x09, CHR 0x0A, CHR 0x0B, CHR 0x0C, CHR 0x0D, CHR '' ''])"

fun fields_from :: "string \<Rightarrow> string \<Rightarrow> string list" where
  "fields_from cur [] = (if cur = [] then [] else [cur])"
| "fields_from cur (c # cs) =
     (if is_space c then (if cur = [] then fields_from [] cs else cur # fields_from [] cs)
      else fields_from (cur @ [c]) cs)"

definition Fields :: "string \<Rightarrow> string list" where
  "Fields s = fields_from [] s"

subsection \<open>Package \<open>strconv\<close>\<close>

definition is_digit :: "char \<Rightarrow> bool" where
  "is_digit c = (let n = (of_char c :: nat) in 48 \<le> n \<and> n \<le> 57)"

definition digit_val :: "char \<Rightarrow> nat" where
  "digit_val c = of_char c - 48"

definition maxUint64 :: nat where
  "maxUint64 = 2 ^ 64 - 1"

text \<open>
  The loop of \<open>strconv.ParseUint(s, 10, 64)\<close>: a byte that is not a digit is a syntax
  error; a value that leaves 64 bits is a range error, reported as soon as it is
  met (the Go test \<open>n1 < n\<close> for the wrapped sum is \<open>maxUint64 < n1\<close> on unbounded
  naturals).
\<close>

fun ParseUint_loop :: "nat \<Rightarrow> string \<Rightarrow> nat \<times> num_err option" where
  "ParseUint_loop n [] = (n, None)"
| "ParseUint_loop n (c # cs) =
     (if \<not> is_digit c then (0, Some ErrSyntax)
      else if maxUint64 div 10 + 1 \<le> n then (maxUint64, Some ErrRange)
      else (let n1 = n * 10 + digit_val c in
            if maxUint64 < n1 then (maxUint64, Some ErrRange) else ParseUint_loop n1 cs))"

definition ParseUint :: "string \<Rightarrow> nat \<times> num_err option" where
  "ParseUint s = (if s = [] then (0, Some ErrSyntax) else ParseUint_loop 0 s)"

text \<open>
  \<open>strconv.ParseInt(s, 10, 64)\<close>: an optional sign, then \<open>ParseUint\<close>; the result is an
  \<open>int64\<close>, so a magnitude beyond \<open>2^63\<close> is a range error with the clamped value.
\<close>

definition ParseInt :: "string \<Rightarrow> int \<times> error option" where
  "ParseInt s =
     (if s = [] then (0, Some (NumError s ErrSyntax))
      else
        (let neg = (hd s = CHR ''-'');
             s1 = (if hd s = CHR ''+'' \<or> hd s = CHR ''-'' then tl s else s);
             (un, err) = ParseUint s1
         in if err = Some ErrSyntax then (0, Some (NumError s ErrSyntax))
            else if \<not> neg \<and> 2 ^ 63 \<le> un then (2 ^ 63 - 1, Some (NumError s ErrRange))
            else if neg \<and> 2 ^ 63 < un then (- (2 ^ 63), Some (NumError s ErrRange))
            else (if neg then - int un else int un, None)))"

text \<open>\<open>strconv.Atoi\<close> is \<open>ParseInt(s, 10, 0)\<close> with a 64-bit \<open>int\<close>.\<close>

definition Atoi :: "string \<Rightarrow> int \<times> error option" where
  "Atoi s = ParseInt s"

subsection \<open>Package \<open>fmt\<close>\<close>

definition digit_char :: "nat \<Rightarrow> char" where
  "digit_char d = ''0123456789'' ! d"

fun nat_str :: "nat \<Rightarrow> string" where
  "nat_str n = (if n < 10 then [digit_char n] else nat_str (n div 10) @ [digit_char (n mod 10)])"

text \<open>The verb \<open>%d\<close> on an \<open>int\<close>: decimal digits, with a minus sign for a negative
  number.\<close>

definition itoa :: "int \<Rightarrow> string" where
  "itoa i = (if i < 0 then CHR ''-'' # nat_str (nat (- i)) else nat_str (nat i))"

datatype operand = StrArg string | IntArg int

fun render :: "operand \<Rightarrow> string" where
  "render (StrArg s) = s"
| "render (IntArg i) = itoa i"

text \<open>
  \<open>fmt.Sprintf\<close> for the formats of this package: plain \<open>%s\<close> and \<open>%d\<close> directives (each
  given an operand of its type where the source gives operands), \<open>%%\<close>, and text. A
  directive with no operand left prints \<open>%!v(MISSING)\<close> for its verb \<open>v\<close>, and a
  lone \<open>%\<close> at the end prints \<open>%!(NOVERB)\<close>: \<open>Command\<close> passes the caller's command line as
  the format with no operand. Flags, widths and argument indexes are not modelled.
\<close>

fun Sprintf :: "string \<Rightarrow> operand list \<Rightarrow> string" where
  "Sprintf [] a = []"
| "Sprintf [c] a = (if c = CHR ''%'' then ''%!(NOVERB)'' else [c])"
| "Sprintf (c # v # rest) a =
     (if c \<noteq> CHR ''%'' then c # Sprintf (v # rest) a
      else if v = CHR ''%'' then CHR ''%'' # Sprintf rest a
      else (case a of
              [] \<Rightarrow> ''%!'' @ [v] @ ''(MISSING)'' @ Sprintf rest []
            | x # xs \<Rightarrow> render x @ Sprintf rest xs))"

subsection \<open>The transport: \<open>net.Conn\<close>, \<open>crypto/tls\<close> and \<open>net/textproto\<close>\<close>

text \<open>
  The byte stream to the server is outside the client. Its state is the record \<open>Stream\<close>:
  the lines the server will still send (\<open>incoming\<close>, without their line ends), the lines
  written so far (\<open>sent\<close>), and for each coming write whether it fails (\<open>wfaults\<close>; when
  the list is used up, writes succeed).
\<close>

record Stream =
  incoming :: "string list"
  sent :: "string list"
  wfaults :: "bool list"

text \<open>
  A \<open>*tls.Config\<close>, as far as the client handshake reads it before it writes:
  the handshake is refused when neither \<open>ServerName\<close> nor \<open>InsecureSkipVerify\<close> is set.
  \<open>None\<close> is the \<open>nil\<close> configuration, which stands for the empty one.
\<close>

record TLSConfig =
  ServerName :: string
  InsecureSkipVerify :: bool

text \<open>
  A value of the interface type \<open>net.Conn\<close>: \<open>nil\<close>, the socket of the session, or
  a \<open>tls.Client\<close> around another connection. There is one socket per session; its state
  is the field \<open>wire\<close> of the client below, so that every reference to the socket sees
  the same stream.
\<close>

datatype NetConn = NilConn | Sock | TLSClient NetConn "TLSConfig option"

datatype io_status = IoPanic | IoErr error | IoOk

text \<open>
  What a read or a write on a connection meets before it reaches the stream: a method
  call on the \<open>nil\<close> interface panics; a \<open>tls.Client\<close> first runs its handshake, which
  fails on an unusable configuration and otherwise talks to the connection below. The
  TLS records themselves are not modelled: past the handshake a line written through
  \<open>tls.Client\<close> is a line of the stream.
\<close>

definition usable :: "TLSConfig option \<Rightarrow> bool" where
  "usable cfg = (case cfg of None \<Rightarrow> False | Some c \<Rightarrow> ServerName c \<noteq> [] \<or> InsecureSkipVerify c)"

fun status :: "NetConn \<Rightarrow> io_status" where
  "status NilConn = IoPanic"
| "status Sock = IoOk"
| "status (TLSClient nc cfg) = (if usable cfg then status nc else IoErr TLSConfigError)"

text \<open>\<open>textproto.NewConn(conn)\<close> wraps a connection in a \<open>*textproto.Conn\<close>.\<close>

datatype Conn = textproto_NewConn NetConn

fun status_of :: "Conn \<Rightarrow> io_status" where
  "status_of (textproto_NewConn nc) = status nc"

subsection \<open>The data model\<close>

text \<open>
  Modelled from the spec: the declarations of \<open>nntp.Group\<close> and \<open>nntp.PostingStatus\<close>
  (package \<open>nntp\<close>) are not among the sources. A group has a name, low and high
  article numbers and an article count (64-bit integers) and a posting status, one of
  permitted, moderated and not permitted; \<open>PostingUnset\<close> stands for the zero value of the
  type, which a \<open>Group\<close> holds until the field is assigned.
\<close>

datatype PostingStatus = PostingUnset | PostingPermitted | PostingModerated | PostingNotPermitted

record Group =
  Name :: string
  Count :: int
  High :: int
  Low :: int
  Posting :: PostingStatus

definition Group_zero :: Group where
  "Group_zero = \<lparr>Name = [], Count = 0, High = 0, Low = 0, Posting = PostingUnset\<rparr>"

record OverItem =
  Number :: string
  From :: string
  Subject :: string
  Date :: string
  MessageId :: string
  References :: string
  bytesMetadata :: string
  linesMetadata :: string

text \<open>
  The \<open>Client\<close> struct. \<open>capabilities\<close> is a slice that the code compares with \<open>nil\<close>:
  \<open>None\<close> is the \<open>nil\<close> slice, \<open>Some ls\<close> a slice with the elements \<open>ls\<close>. The field
  \<open>wire\<close> is not a field of the struct: it is the state of the session's socket.
\<close>

record Client =
  wire :: Stream
  conn :: Conn
  netconn :: NetConn
  tls :: bool
  Banner :: string
  capabilities :: "string list option"

definition elems :: "'a list option \<Rightarrow> 'a list" where
  "elems s = (case s of None \<Rightarrow> [] | Some xs \<Rightarrow> xs)"

subsection \<open>\<open>net/textproto\<close>: lines, status lines and dot-encoded blocks\<close>

text \<open>
  \<open>PrintfLine(format, args...)\<close> writes the formatted line and flushes it. The write
  fails when the connection does, or when the stream refuses it.
\<close>

definition PrintfLine :: "Client \<Rightarrow> string \<Rightarrow> operand list \<Rightarrow> error option exec \<times> Client" where
  "PrintfLine c format a =
     (case status_of (conn c) of
        IoPanic \<Rightarrow> (Panic NilDereference, c)
      | IoErr e \<Rightarrow> (Ret (Some e), c)
      | IoOk \<Rightarrow>
          (case wfaults (wire c) of
             [] \<Rightarrow> (Ret None, c\<lparr>wire := (wire c)\<lparr>sent := sent (wire c) @ [Sprintf format a]\<rparr>\<rparr>)
           | f # fs \<Rightarrow>
               (if f then (Ret (Some WriteFailed), c\<lparr>wire := (wire c)\<lparr>wfaults := fs\<rparr>\<rparr>)
                else (Ret None,
                      c\<lparr>wire := (wire c)\<lparr>sent := sent (wire c) @ [Sprintf format a],
                                          wfaults := fs\<rparr>\<rparr>))))"

text \<open>\<open>ReadLine\<close>: the next line of the stream, or \<open>io.EOF\<close> when the server has closed.\<close>

definition ReadLine :: "Client \<Rightarrow> (string \<times> error option) exec \<times> Client" where
  "ReadLine c =
     (case status_of (conn c) of
        IoPanic \<Rightarrow> (Panic NilDereference, c)
      | IoErr e \<Rightarrow> (Ret ([], Some e), c)
      | IoOk \<Rightarrow>
          (case incoming (wire c) of
             [] \<Rightarrow> (Ret ([], Some EOF), c)
           | l # ls \<Rightarrow> (Ret (l, None), c\<lparr>wire := (wire c)\<lparr>incoming := ls\<rparr>\<rparr>)))"

text \<open>
  Modelled from the spec: \<open>ReadCodeLine\<close> belongs to Go's \<open>net/textproto\<close>, which is not
  among the sources. The status line is a 3-digit code, a space and the message. An
  expected code of three digits must be the code itself; one of one or two digits is a
  prefix of the code (\<open>2\<close> accepts 200 to 299); any other value, such as \<open>-1\<close>, accepts every
  code. A mismatch is an error that carries the code and the message. A line whose
  fourth byte is \<open>-\<close> starts a multi-line status, which \<open>ReadCodeLine\<close> refuses.
\<close>

definition parseCodeLine :: "string \<Rightarrow> int \<Rightarrow> int \<times> bool \<times> string \<times> error option" where
  "parseCodeLine line expectCode =
     (if length line < 4 \<or> (line ! 3 \<noteq> CHR '' '' \<and> line ! 3 \<noteq> CHR ''-'')
      then (0, False, [], Some (ProtocolError (''short response: '' @ line)))
      else
        (let continued = (line ! 3 = CHR ''-'');
             (code, err) = Atoi (take 3 line)
         in if err \<noteq> None \<or> code < 100
            then (code, continued, [], Some (ProtocolError (''invalid response code: '' @ line)))
            else
              (let message = drop 4 line
               in if (1 \<le> expectCode \<and> expectCode < 10 \<and> code div 100 \<noteq> expectCode)
                     \<or> (10 \<le> expectCode \<and> expectCode < 100 \<and> code div 10 \<noteq> expectCode)
                     \<or> (100 \<le> expectCode \<and> expectCode < 1000 \<and> code \<noteq> expectCode)
                  then (code, continued, message, Some (CodeError code message))
                  else (code, continued, message, None))))"

definition ReadCodeLine :: "Client \<Rightarrow> int \<Rightarrow> (int \<times> string \<times> error option) exec \<times> Client" where
  "ReadCodeLine c expectCode =
     (case ReadLine c of
        (Panic p, c1) \<Rightarrow> (Panic p, c1)
      | (Ret (line, Some err), c1) \<Rightarrow> (Ret (0, [], Some err), c1)
      | (Ret (line, None), c1) \<Rightarrow>
          (case parseCodeLine line expectCode of
             (code, continued, message, err) \<Rightarrow>
               (if err = None \<and> continued
                then (Ret (code, message,
                           Some (ProtocolError (''unexpected multi-line response: '' @ message))), c1)
                else (Ret (code, message, err), c1))))"

text \<open>
  \<open>ReadDotLines\<close>: the lines up to the line that is a single dot, each with one leading
  dot removed. The result is the \<open>nil\<close> slice when the block has no line. A stream that
  ends inside the block gives the lines read so far and \<open>io.ErrUnexpectedEOF\<close>.
\<close>

fun dot_lines :: "string list \<Rightarrow> string list \<Rightarrow> string list \<times> error option \<times> string list" where
  "dot_lines v [] = (v, Some ErrUnexpectedEOF, [])"
| "dot_lines v (line # rest) =
     (if line \<noteq> [] \<and> hd line = CHR ''.''
      then (if length line = 1 then (v, None, rest) else dot_lines (v @ [tl line]) rest)
      else dot_lines (v @ [line]) rest)"

definition slice :: "'a list \<Rightarrow> 'a list option" where
  "slice v = (if v = [] then None else Some v)"

definition ReadDotLines :: "Client \<Rightarrow> (string list option \<times> error option) exec \<times> Client" where
  "ReadDotLines c =
     (case status_of (conn c) of
        IoPanic \<Rightarrow> (Panic NilDereference, c)
      | IoErr e \<Rightarrow> (Ret (None, Some e), c)
      | IoOk \<Rightarrow>
          (case dot_lines [] (incoming (wire c)) of
             (v, err, rest) \<Rightarrow> (Ret (slice v, err), c\<lparr>wire := (wire c)\<lparr>incoming := rest\<rparr>\<rparr>)))"

text \<open>\<open>DotReader\<close>: a reader of the dot-encoded block that follows; nothing is read until
  the caller reads from it.\<close>

datatype Reader = DotReader Conn

subsection \<open>The client\<close>

text \<open>
  \<open>NewConn(establishedConn)\<close> wraps the established connection, reads the greeting
  (code 200) and returns \<open>&Client{conn: conn, Banner: msg}\<close>: the fields \<open>netconn\<close>, \<open>tls\<close>
  and \<open>capabilities\<close> keep their zero values \<open>nil\<close>, \<open>false\<close> and \<open>nil\<close>. \<open>New\<close> differs
  only in dialling the connection itself.
\<close>

definition NewConn :: "Stream \<Rightarrow> (Client option \<times> error option) exec" where
  "NewConn establishedConn =
     (case ReadCodeLine \<lparr>wire = establishedConn, conn = textproto_NewConn Sock,
                         netconn = NilConn, tls = False, Banner = [], capabilities = None\<rparr> 200 of
        (Panic p, c) \<Rightarrow> Panic p
      | (Ret (code, msg, Some err), c) \<Rightarrow> Ret (None, Some err)
      | (Ret (code, msg, None), c) \<Rightarrow> Ret (Some (c\<lparr>Banner := msg\<rparr>), None))"

text \<open>\<open>Command(cmd, expectCode)\<close>: \<open>PrintfLine(cmd)\<close>, then \<open>ReadCodeLine(expectCode)\<close>.\<close>

definition Command :: "Client \<Rightarrow> string \<Rightarrow> int \<Rightarrow> (int \<times> string \<times> error option) exec \<times> Client" where
  "Command c cmd expectCode =
     (case PrintfLine c cmd [] of
        (Panic p, c1) \<Rightarrow> (Panic p, c1)
      | (Ret (Some err), c1) \<Rightarrow> (Ret (0, [], Some err), c1)
      | (Ret None, c1) \<Rightarrow> ReadCodeLine c1 expectCode)"

definition asLines :: "Client \<Rightarrow> string \<Rightarrow> int \<Rightarrow> (string list option \<times> error option) exec \<times> Client" where
  "asLines c cmd expectCode =
     (case Command c cmd expectCode of
        (Panic p, c1) \<Rightarrow> (Panic p, c1)
      | (Ret (code, msg, Some err), c1) \<Rightarrow> (Ret (None, Some err), c1)
      | (Ret (code, msg, None), c1) \<Rightarrow> ReadDotLines c1)"

text \<open>\<open>Authenticate(user, pass)\<close>, with the named results \<open>(msg, err)\<close>.\<close>

definition Authenticate :: "Client \<Rightarrow> string \<Rightarrow> string \<Rightarrow> (string \<times> error option) exec \<times> Client" where
  "Authenticate c user pass =
     (case PrintfLine c ''authinfo user %s'' [StrArg user] of
        (Panic p, c1) \<Rightarrow> (Panic p, c1)
      | (Ret (Some err), c1) \<Rightarrow> (Ret ([], Some err), c1)
      | (Ret None, c1) \<Rightarrow>
          (case ReadCodeLine c1 381 of
             (Panic p, c2) \<Rightarrow> (Panic p, c2)
           | (Ret (code, m, Some err), c2) \<Rightarrow> (Ret ([], Some err), c2)
           | (Ret (code, m, None), c2) \<Rightarrow>
               (case PrintfLine c2 ''authinfo pass %s'' [StrArg pass] of
                  (Panic p, c3) \<Rightarrow> (Panic p, c3)
                | (Ret (Some err), c3) \<Rightarrow> (Ret ([], Some err), c3)
                | (Ret None, c3) \<Rightarrow>
                    (case ReadCodeLine c3 281 of
                       (Panic p, c4) \<Rightarrow> (Panic p, c4)
                     | (Ret (code', msg, err), c4) \<Rightarrow> (Ret (msg, err), c4)))))"

definition parsePosting :: "string \<Rightarrow> PostingStatus" where
  "parsePosting p =
     (if p = ''y'' then PostingPermitted
      else if p = ''m'' then PostingModerated
      else PostingNotPermitted)"

text \<open>
  The loop of \<open>List\<close> over the lines of the data block. An index expression
  \<open>parts[i]\<close> with \<open>i\<close> not below \<open>len(parts)\<close> panics; \<open>parts[1]\<close> and \<open>parts[2]\<close> are read
  behind the guard \<open>len(parts) < 3\<close>, \<open>parts[3]\<close> when both numbers have parsed.
\<close>

fun List_loop :: "string list \<Rightarrow> Group list \<Rightarrow> Group list exec" where
  "List_loop [] rv = Ret rv"
| "List_loop (l # ls) rv =
     (let parts = Split l (CHR '' '')
      in if length parts < 3 then List_loop ls rv
         else
           (case (ParseInt (parts ! 1), ParseInt (parts ! 2)) of
              ((high, errh), (low, errl)) \<Rightarrow>
                (if errh = None \<and> errl = None
                 then (if length parts \<le> 3 then Panic IndexOutOfRange
                       else List_loop ls
                              (rv @ [\<lparr>Name = parts ! 0, Count = 0, High = high, Low = low,
                                      Posting = parsePosting (parts ! 3)\<rparr>]))
                 else List_loop ls rv)))"

definition Client_List :: "Client \<Rightarrow> string \<Rightarrow> (Group list \<times> error option) exec \<times> Client" where
  "Client_List c sub =
     (let sub1 = (if sub \<noteq> [] then '' '' @ sub else sub)
      in case Command c (''LIST'' @ sub1) 215 of
           (Panic p, c1) \<Rightarrow> (Panic p, c1)
         | (Ret (code, msg, Some err), c1) \<Rightarrow> (Ret ([], Some err), c1)
         | (Ret (code, msg, None), c1) \<Rightarrow>
             (case ReadDotLines c1 of
                (Panic p, c2) \<Rightarrow> (Panic p, c2)
              | (Ret (groupLines, Some err), c2) \<Rightarrow> (Ret ([], Some err), c2)
              | (Ret (groupLines, None), c2) \<Rightarrow>
                  (case List_loop (elems groupLines) [] of
                     Panic p \<Rightarrow> (Panic p, c2)
                   | Ret rv \<Rightarrow> (Ret (rv, None), c2))))"

text \<open>
  \<open>Group(name)\<close>, with the named results \<open>(rv, err)\<close>. The error assigned when the message
  does not have four fields is overwritten by the next assignment to \<open>err\<close>: the
  function does not return there.
\<close>

definition Group_parse :: "string \<Rightarrow> (Group \<times> error option) exec" where
  "Group_parse msg =
     (let rv = Group_zero;
          parts = Split msg (CHR '' '');
          err = (if length parts \<noteq> 4
                 then Some (ErrorString (''Don't know how to parse result: '' @ msg)) else None);
          (count, err) = ParseInt (parts ! 0);
          rv = rv\<lparr>Count := count\<rparr>
      in if err \<noteq> None then Ret (rv, err)
         else if length parts \<le> 1 then Panic IndexOutOfRange
         else
           (let (low, err) = ParseInt (parts ! 1);
                rv = rv\<lparr>Low := low\<rparr>
            in if err \<noteq> None then Ret (rv, err)
               else if length parts \<le> 2 then Panic IndexOutOfRange
               else
                 (let (high, err) = ParseInt (parts ! 2);
                      rv = rv\<lparr>High := high\<rparr>
                  in if err \<noteq> None then Ret (rv, err)
                     else if length parts \<le> 3 then Panic IndexOutOfRange
                     else Ret (rv\<lparr>Name := parts ! 3\<rparr>, None))))"

definition Client_Group :: "Client \<Rightarrow> string \<Rightarrow> (Group \<times> error option) exec \<times> Client" where
  "Client_Group c name =
     (case Command c (''GROUP '' @ name) 211 of
        (Panic p, c1) \<Rightarrow> (Panic p, c1)
      | (Ret (code, msg, Some err), c1) \<Rightarrow> (Ret (Group_zero, Some err), c1)
      | (Ret (code, msg, None), c1) \<Rightarrow> (Group_parse msg, c1))"

text \<open>\<open>articleish(expected)\<close>, the helper of \<open>Article\<close>, \<open>Head\<close> and \<open>Body\<close>.\<close>

definition articleish ::
    "Client \<Rightarrow> int \<Rightarrow> (int \<times> string \<times> Reader option \<times> error option) exec \<times> Client" where
  "articleish c expected =
     (case ReadCodeLine c expected of
        (Panic p, c1) \<Rightarrow> (Panic p, c1)
      | (Ret (code, msg, Some err), c1) \<Rightarrow> (Ret (0, [], None, Some err), c1)
      | (Ret (code, msg, None), c1) \<Rightarrow>
          (let parts = SplitN2 msg (CHR '' '');
               (n, err) = ParseInt (parts ! 0)
           in if err \<noteq> None then (Ret (0, [], None, err), c1)
              else if length parts \<le> 1 then (Panic IndexOutOfRange, c1)
              else (Ret (n, parts ! 1, Some (DotReader (conn c1)), None), c1)))"

definition article_cmd ::
    "string \<Rightarrow> int \<Rightarrow> Client \<Rightarrow> string
       \<Rightarrow> (int \<times> string \<times> Reader option \<times> error option) exec \<times> Client" where
  "article_cmd format expected c specifier =
     (case PrintfLine c format [StrArg specifier] of
        (Panic p, c1) \<Rightarrow> (Panic p, c1)
      | (Ret (Some err), c1) \<Rightarrow> (Ret (0, [], None, Some err), c1)
      | (Ret None, c1) \<Rightarrow> articleish c1 expected)"

definition Article ::
    "Client \<Rightarrow> string \<Rightarrow> (int \<times> string \<times> Reader option \<times> error option) exec \<times> Client" where
  "Article c specifier = article_cmd ''ARTICLE %s'' 220 c specifier"

definition Head ::
    "Client \<Rightarrow> string \<Rightarrow> (int \<times> string \<times> Reader option \<times> error option) exec \<times> Client" where
  "Head c specifier = article_cmd ''HEAD %s'' 221 c specifier"

definition Body ::
    "Client \<Rightarrow> string \<Rightarrow> (int \<times> string \<times> Reader option \<times> error option) exec \<times> Client" where
  "Body c specifier = article_cmd ''BODY %s'' 222 c specifier"

text \<open>\<open>Capabilities()\<close>: the lines of the block are uppercased in place and stored.\<close>

definition Capabilities :: "Client \<Rightarrow> (string list option \<times> error option) exec \<times> Client" where
  "Capabilities c =
     (case asLines c ''CAPABILITIES'' 101 of
        (Panic p, c1) \<Rightarrow> (Panic p, c1)
      | (Ret (caps, Some err), c1) \<Rightarrow> (Ret (None, Some err), c1)
      | (Ret (caps, None), c1) \<Rightarrow>
          (let caps1 = map_option (map ToUpper) caps
           in (Ret (caps1, None), c1\<lparr>capabilities := caps1\<rparr>)))"

fun GetCapability_loop :: "string list \<Rightarrow> string \<Rightarrow> string" where
  "GetCapability_loop [] capability = []"
| "GetCapability_loop (capa # rest) capability =
     (let i = IndexAny capa [CHR 0x09, CHR '' '']
      in if i \<noteq> - 1 \<and> take (nat i) capa = capability then capa
         else if capa = capability then capa
         else GetCapability_loop rest capability)"

definition GetCapability :: "Client \<Rightarrow> string \<Rightarrow> string" where
  "GetCapability c capability = GetCapability_loop (elems (capabilities c)) (ToUpper capability)"

fun arg_loop :: "string list \<Rightarrow> string \<Rightarrow> bool" where
  "arg_loop [] argument = False"
| "arg_loop (capArg # rest) argument = (if capArg = argument then True else arg_loop rest argument)"

text \<open>
  \<open>HasCapabilityArgument(capability, argument)\<close>. The slice expression
  \<open>strings.Fields(capLine)[1:]\<close> panics when the line has no field.
\<close>

definition HasCapabilityArgument :: "Client \<Rightarrow> string \<Rightarrow> string \<Rightarrow> (bool \<times> error option) exec" where
  "HasCapabilityArgument c capability argument =
     (if capabilities c = None then Ret (False, Some (ErrorString ''Capabilities unpopulated''))
      else
        (let capLine = GetCapability c capability
         in if capLine = [] then Ret (False, Some (ErrorString ''No such capability''))
            else
              (let argument1 = ToUpper argument; flds = Fields capLine
               in if length flds < 1 then Panic SliceBoundsOutOfRange
                  else Ret (arg_loop (drop 1 flds) argument1, None))))"

definition ListOverviewFmt :: "Client \<Rightarrow> (string list option \<times> error option) exec \<times> Client" where
  "ListOverviewFmt c =
     (case asLines c ''LIST OVERVIEW.FMT'' 215 of
        (Panic p, c1) \<Rightarrow> (Panic p, c1)
      | (Ret (flds, Some err), c1) \<Rightarrow> (Ret (None, Some err), c1)
      | (Ret (flds, None), c1) \<Rightarrow> (Ret (flds, None), c1))"

text \<open>
  The loop of \<open>Over\<close> over the lines of the data block: the composite literal reads
  \<open>splitItem[0]\<close> to \<open>splitItem[7]\<close> behind the guard \<open>len(splitItem) < 5\<close>.
\<close>

fun Over_loop :: "string list \<Rightarrow> OverItem list \<Rightarrow> OverItem list exec" where
  "Over_loop [] ret = Ret ret"
| "Over_loop (item # rest) ret =
     (let splitItem = Split item (CHR 0x09)
      in if length splitItem < 5 then Over_loop rest ret
         else if length splitItem \<le> 7 then Panic IndexOutOfRange
         else Over_loop rest
                (ret @ [\<lparr>Number = splitItem ! 0, From = splitItem ! 2, Subject = splitItem ! 1,
                         Date = splitItem ! 3, MessageId = splitItem ! 4,
                         References = splitItem ! 5, bytesMetadata = splitItem ! 6,
                         linesMetadata = splitItem ! 7\<rparr>]))"

definition Over_cmd :: "int list \<Rightarrow> string option" where
  "Over_cmd args =
     (case args of
        [] \<Rightarrow> Some ''OVER''
      | [a] \<Rightarrow> Some (Sprintf ''OVER %d'' [IntArg a])
      | [a, b] \<Rightarrow> Some (Sprintf ''OVER %d-%d'' [IntArg a, IntArg b])
      | _ \<Rightarrow> None)"

definition Over :: "Client \<Rightarrow> int list \<Rightarrow> (OverItem list \<times> error option) exec \<times> Client" where
  "Over c args =
     (case Over_cmd args of
        None \<Rightarrow>
          (Ret ([], Some (ErrorString
             ''Invalid arguments, either 1 or 2 numbers for an item, for a range'')), c)
      | Some cmd \<Rightarrow>
          (case asLines c cmd 224 of
             (Panic p, c1) \<Rightarrow> (Panic p, c1)
           | (Ret (lines, Some err), c1) \<Rightarrow> (Ret ([], Some err), c1)
           | (Ret (lines, None), c1) \<Rightarrow>
               (case Over_loop (elems lines) [] of
                  Panic p \<Rightarrow> (Panic p, c1)
                | Ret ret \<Rightarrow> (Ret (ret, None), c1))))"

definition HasTLS :: "Client \<Rightarrow> bool" where
  "HasTLS c = tls c"

text \<open>
  \<open>StartTLS(config)\<close>: after the code 382 the field \<open>netconn\<close> is wrapped in
  \<open>tls.Client\<close>, \<open>conn\<close> becomes a new \<open>textproto.Conn\<close> on it, and the capabilities are
  fetched again.
\<close>

definition StartTLS :: "Client \<Rightarrow> TLSConfig option \<Rightarrow> error option exec \<times> Client" where
  "StartTLS c config =
     (if tls c then (Ret (Some (ErrorString ''TLS already active'')), c)
      else
        (case Command c ''STARTTLS'' 382 of
           (Panic p, c1) \<Rightarrow> (Panic p, c1)
         | (Ret (code, msg, Some err), c1) \<Rightarrow> (Ret (Some err), c1)
         | (Ret (code, msg, None), c1) \<Rightarrow>
             (let c2 = c1\<lparr>netconn := TLSClient (netconn c1) config\<rparr>;
                  c3 = c2\<lparr>conn := textproto_NewConn (netconn c2)\<rparr>;
                  c4 = c3\<lparr>tls := True\<rparr>
              in case Capabilities c4 of
                   (Panic p, c5) \<Rightarrow> (Panic p, c5)
                 | (Ret (caps, Some err), c5) \<Rightarrow> (Ret (Some err), c5)
                 | (Ret (caps, None), c5) \<Rightarrow> (Ret None, c5))))"

subsection \<open>Vocabulary of the properties\<close>

text \<open>
  \<open>session replies\<close> is the client that \<open>NewConn\<close> returns once it has read the greeting
  \<open>200 ready\<close>, on a stream whose writes succeed and whose server will send \<open>replies\<close>.
\<close>

definition session :: "string list \<Rightarrow> Client" where
  "session replies =
     \<lparr>wire = \<lparr>incoming = replies, sent = [], wfaults = []\<rparr>, conn = textproto_NewConn Sock,
      netconn = NilConn, tls = False, Banner = ''ready'', capabilities = None\<rparr>"

text \<open>A status line of the server: the code in decimal, a space, the message.\<close>

definition status_line :: "nat \<Rightarrow> string \<Rightarrow> string" where
  "status_line code msg = nat_str code @ CHR '' '' # msg"

text \<open>The next write of the client succeeds.\<close>

definition can_write :: "Client \<Rightarrow> bool" where
  "can_write c =
     (status_of (conn c) = IoOk \<and> (case wfaults (wire c) of [] \<Rightarrow> True | f # fs \<Rightarrow> \<not> f))"

text \<open>A line of a data block as the server sends it: a leading dot is doubled.\<close>

definition dot_stuff :: "string \<Rightarrow> string" where
  "dot_stuff l = (if l \<noteq> [] \<and> hd l = CHR ''.'' then CHR ''.'' # l else l)"

text \<open>
  The label of a capability line is what stands before its first space or tab. A line
  matches a label when its label, or the whole line, is the label.
\<close>

definition label_of :: "string \<Rightarrow> string" where
  "label_of line = takeWhile (\<lambda>c. c \<noteq> CHR 0x09 \<and> c \<noteq> CHR '' '') line"

definition matches :: "string \<Rightarrow> string \<Rightarrow> bool" where
  "matches label line = (label_of line = label \<or> line = label)"

section \<open>Properties\<close>

declare nat_str.simps [simp del]

lemmas strconv_defs = Atoi_def ParseInt_def ParseUint_def is_digit_def digit_val_def maxUint64_def

lemmas textproto_defs = PrintfLine_def ReadLine_def ReadCodeLine_def parseCodeLine_def
  ReadDotLines_def slice_def elems_def

lemma NewConn_session:
  "NewConn \<lparr>incoming = ''200 ready'' # replies, sent = [], wfaults = []\<rparr>
     = Ret (Some (session replies), None)"
  by (simp add: NewConn_def session_def textproto_defs strconv_defs)

subsection \<open>\<open>List\<close>: lines with too few fields\<close>

text \<open>
  C1. Every line of the data block of \<open>List\<close> that does not split on single spaces into
  the four fields name, high, low and posting indicator is skipped, and \<open>List\<close> returns
  normally with the well-formed groups only; no malformed line causes a run-time fault.

  The code does not do this. The guard of the loop is \<open>len(parts) < 3\<close>, and
  \<open>parts[3]\<close> is read once both numbers have parsed: a line of exactly three fields
  whose second and third field are numbers, such as \<open>alt.test 20 10\<close>, is not skipped but
  ends the call with an index-out-of-range panic.
\<close>

theorem List_three_fields_panics:
  "fst (Client_List (session [''215 list of newsgroups follows'', ''alt.test 20 10'', ''.'']) [])
     = Panic IndexOutOfRange"
  by (simp add: Client_List_def Command_def session_def textproto_defs strconv_defs)

text \<open>The same listing with the posting indicator present returns the group.\<close>

theorem List_three_fields_panics_witness:
  "fst (Client_List (session [''215 list of newsgroups follows'', ''alt.test 20 10'', ''.'']) [])
     = Panic IndexOutOfRange
   \<and> fst (Client_List (session [''215 list of newsgroups follows'', ''alt.test 20 10 y'', ''.'']) [])
     = Ret ([\<lparr>Name = ''alt.test'', Count = 0, High = 20, Low = 10,
              Posting = PostingPermitted\<rparr>], None)"
  using List_three_fields_panics
  by (simp add: Client_List_def Command_def session_def textproto_defs strconv_defs
      parsePosting_def)

subsection \<open>\<open>Over\<close>: lines with too few fields\<close>

text \<open>
  C2. Every line of the data block of \<open>Over\<close> that splits on tabs into fewer than eight
  fields is skipped without a fault, and every line of at least eight fields gives one
  item.

  The code does not do this. The guard of the loop is \<open>len(splitItem) < 5\<close>, and the item
  reads \<open>splitItem[0]\<close> to \<open>splitItem[7]\<close>: a line of five, six or seven fields ends the call
  with an index-out-of-range panic. Below, the line has the five fields \<open>1\<close>, \<open>s\<close>, \<open>f\<close>,
  \<open>d\<close> and \<open>m\<close>.
\<close>

theorem Over_five_fields_panics:
  "fst (Over (session [''224 overview follows'',
                       [CHR ''1'', CHR 0x09, CHR ''s'', CHR 0x09, CHR ''f'', CHR 0x09, CHR ''d'',
                        CHR 0x09, CHR ''m''],
                       ''.'']) [])
     = Panic IndexOutOfRange"
  by (simp add: Over_def Over_cmd_def asLines_def Command_def session_def textproto_defs
      strconv_defs)

text \<open>A line of four fields is skipped, and the call returns no item.\<close>

theorem Over_five_fields_panics_witness:
  "fst (Over (session [''224 overview follows'',
                       [CHR ''1'', CHR 0x09, CHR ''s'', CHR 0x09, CHR ''f'', CHR 0x09, CHR ''d'',
                        CHR 0x09, CHR ''m''],
                       ''.'']) [])
     = Panic IndexOutOfRange
   \<and> fst (Over (session [''224 overview follows'',
                       [CHR ''1'', CHR 0x09, CHR ''s'', CHR 0x09, CHR ''f'', CHR 0x09, CHR ''d''],
                       ''.'']) [])
     = Ret ([], None)"
  using Over_five_fields_panics
  by (simp add: Over_def Over_cmd_def asLines_def Command_def session_def textproto_defs
      strconv_defs)

subsection \<open>\<open>Group\<close>: the number of fields of the status message\<close>

text \<open>
  C3. When the message of the 211 response does not have exactly four fields separated
  by spaces, \<open>Group\<close> returns a parse error.

  The code does not do this. The error is assigned and then overwritten by the parse
  of the first field, so that a message of five fields is accepted, and a message of
  three numeric fields ends the call with an index-out-of-range panic at \<open>parts[3]\<close>.
\<close>

theorem Group_field_count_not_enforced:
  "fst (Client_Group (session [''211 5 10 20 alt.test extra'']) ''alt.test'')
     = Ret (\<lparr>Name = ''alt.test'', Count = 5, High = 20, Low = 10, Posting = PostingUnset\<rparr>, None)
   \<and> fst (Client_Group (session [''211 5 10 20'']) ''alt.test'') = Panic IndexOutOfRange"
  by (simp add: Client_Group_def Group_parse_def Group_zero_def Command_def session_def
      textproto_defs strconv_defs)

text \<open>The message of the specification's example, with four fields, gives the same group.\<close>

theorem Group_field_count_not_enforced_witness:
  "fst (Client_Group (session [''211 5 10 20 alt.test extra'']) ''alt.test'')
     = fst (Client_Group (session [''211 5 10 20 alt.test'']) ''alt.test'')"
  using Group_field_count_not_enforced
  by (simp add: Client_Group_def Group_parse_def Group_zero_def Command_def session_def
      textproto_defs strconv_defs)

subsection \<open>Status lines and the expected code\<close>

lemma digit_char_digit:
  assumes "d \<le> 9"
  shows "is_digit (digit_char d)" and "digit_val (digit_char d) = d"
    and "digit_char d \<noteq> CHR ''+''" and "digit_char d \<noteq> CHR ''-''"
proof -
  from assms have "d \<in> {0, 1, 2, 3, 4, 5, 6, 7, 8, 9}" by auto
  then show "is_digit (digit_char d)" and "digit_val (digit_char d) = d"
    and "digit_char d \<noteq> CHR ''+''" and "digit_char d \<noteq> CHR ''-''"
    by (auto simp: digit_char_def is_digit_def digit_val_def)
qed

lemma nat_str_3:
  assumes "100 \<le> n" and "n \<le> 999"
  shows "nat_str n = [digit_char (n div 100), digit_char (n div 10 mod 10), digit_char (n mod 10)]"
proof -
  have a: "nat_str n = nat_str (n div 10) @ [digit_char (n mod 10)]"
    using assms by (subst nat_str.simps) simp
  have "\<not> n div 10 < 10" using assms by (simp add: less_eq_div_iff_mult_less_eq not_less)
  then have b: "nat_str (n div 10) = nat_str (n div 10 div 10) @ [digit_char (n div 10 mod 10)]"
    by (subst nat_str.simps) simp
  have d: "n div 10 div 10 = n div 100" by (simp add: div_mult2_eq)
  have "n div 100 < 10" using assms by (simp add: div_less_iff_less_mult)
  then have c: "nat_str (n div 10 div 10) = [digit_char (n div 10 div 10)]"
    unfolding d by (subst nat_str.simps) simp
  show ?thesis using a b c d by simp
qed


lemma ParseUint_3digits:
  assumes "a \<le> 9" and "b \<le> 9" and "d \<le> 9"
  shows "ParseUint_loop 0 [digit_char a, digit_char b, digit_char d] = (100 * a + 10 * b + d, None)"
proof -
  have 1: "ParseUint_loop 0 [digit_char a, digit_char b, digit_char d]
             = ParseUint_loop a [digit_char b, digit_char d]"
    using assms by (simp add: digit_char_digit maxUint64_def)
  have 2: "ParseUint_loop a [digit_char b, digit_char d] = ParseUint_loop (a * 10 + b) [digit_char d]"
    using assms by (simp add: digit_char_digit maxUint64_def)
  have 3: "ParseUint_loop (a * 10 + b) [digit_char d] = ((a * 10 + b) * 10 + d, None)"
    using assms by (simp add: digit_char_digit maxUint64_def)
  show ?thesis unfolding 1 2 3 by simp
qed

lemma Atoi_3digits:
  assumes "a \<le> 9" and "b \<le> 9" and "d \<le> 9"
  shows "Atoi [digit_char a, digit_char b, digit_char d] = (int (100 * a + 10 * b + d), None)"
proof -
  have "100 * a + 10 * b + d < 2 ^ 63" using assms by simp
  then show ?thesis
    using assms
    by (simp add: Atoi_def ParseInt_def ParseUint_def digit_char_digit ParseUint_3digits
        del: ParseUint_loop.simps)
qed


lemma parseCodeLine_status_line:
  assumes "100 \<le> code" and "code \<le> 999"
  shows "parseCodeLine (status_line code msg) e =
           (int code, False, msg,
            if (1 \<le> e \<and> e < 10 \<and> int code div 100 \<noteq> e)
               \<or> (10 \<le> e \<and> e < 100 \<and> int code div 10 \<noteq> e)
               \<or> (100 \<le> e \<and> e < 1000 \<and> int code \<noteq> e)
            then Some (CodeError (int code) msg) else None)"
proof -
  let ?a = "code div 100" and ?b = "code div 10 mod 10" and ?d = "code mod 10"
  have "?a \<le> 999 div 100" using assms(2) by (rule div_le_mono)
  then have da: "?a \<le> 9" by simp
  have "?b < 10" and "?d < 10" by simp_all
  then have db: "?b \<le> 9" and dd: "?d \<le> 9" by simp_all
  note digs = da db dd
  have v1: "code = 10 * (code div 10) + ?d" by simp
  have v2: "code div 10 = 10 * (code div 10 div 10) + ?b" by simp
  have v3: "code div 10 div 10 = ?a" by (simp add: div_mult2_eq)
  have val: "100 * ?a + 10 * ?b + ?d = code" using v1 v2 v3 by linarith
  have line: "status_line code msg = digit_char ?a # digit_char ?b # digit_char ?d # CHR '' '' # msg"
    using assms by (simp add: status_line_def nat_str_3)
  have atoi: "Atoi [digit_char ?a, digit_char ?b, digit_char ?d] = (int code, None)"
    using Atoi_3digits [OF digs] val by simp
  show ?thesis
    unfolding line parseCodeLine_def
    using assms(1) by (simp add: atoi)
qed

lemma ReadCodeLine_status_line:
  assumes "ReadLine c = (Ret (status_line code msg, None), c1)" and "100 \<le> code" and "code \<le> 999"
  shows "ReadCodeLine c e =
           (Ret (int code, msg,
                 if (1 \<le> e \<and> e < 10 \<and> int code div 100 \<noteq> e)
                    \<or> (10 \<le> e \<and> e < 100 \<and> int code div 10 \<noteq> e)
                    \<or> (100 \<le> e \<and> e < 1000 \<and> int code \<noteq> e)
                 then Some (CodeError (int code) msg) else None), c1)"
  using assms(1) by (simp add: ReadCodeLine_def parseCodeLine_status_line [OF assms(2,3)])





subsection \<open>\<open>Article\<close>, \<open>Head\<close> and \<open>Body\<close>: the status message\<close>

lemma SplitN2_no_sep: "sep \<notin> set s \<Longrightarrow> SplitN2 s sep = [s]"
  by (simp add: SplitN2_def)

lemma takeWhile_first_sep:
  "sep \<notin> set first \<Longrightarrow> takeWhile (\<lambda>c. c \<noteq> sep) (first @ sep # rest) = first"
  by (induction first) auto

lemma dropWhile_first_sep:
  "sep \<notin> set first \<Longrightarrow> dropWhile (\<lambda>c. c \<noteq> sep) (first @ sep # rest) = sep # rest"
  by (induction first) auto

lemma SplitN2_first_sep: "sep \<notin> set first \<Longrightarrow> SplitN2 (first @ sep # rest) sep = [first, rest]"
  by (simp add: SplitN2_def takeWhile_first_sep dropWhile_first_sep)

lemma articleish_message:
  assumes "ReadCodeLine c e = (Ret (code, msg, None), c1)"
  shows "(\<forall>n. CHR '' '' \<notin> set msg \<and> ParseInt msg = (n, None) \<longrightarrow>
            articleish c e = (Panic IndexOutOfRange, c1))
       \<and> (\<forall>first rest n. msg = first @ CHR '' '' # rest \<and> CHR '' '' \<notin> set first
              \<and> ParseInt first = (n, None) \<longrightarrow>
            articleish c e = (Ret (n, rest, Some (DotReader (conn c1)), None), c1))
       \<and> (\<forall>n s rd c'. articleish c e = (Ret (n, s, rd, None), c') \<longrightarrow> CHR '' '' \<in> set msg)"
proof (intro conjI allI impI)
  fix n assume "CHR '' '' \<notin> set msg \<and> ParseInt msg = (n, None)"
  then show "articleish c e = (Panic IndexOutOfRange, c1)"
    using assms by (simp add: articleish_def SplitN2_no_sep)
next
  fix first rest n
  assume "msg = first @ CHR '' '' # rest \<and> CHR '' '' \<notin> set first \<and> ParseInt first = (n, None)"
  then show "articleish c e = (Ret (n, rest, Some (DotReader (conn c1)), None), c1)"
    using assms by (simp add: articleish_def SplitN2_first_sep)
next
  fix n s rd c'
  assume r: "articleish c e = (Ret (n, s, rd, None), c')"
  show "CHR '' '' \<in> set msg"
  proof (rule ccontr)
    assume "CHR '' '' \<notin> set msg"
    then have "SplitN2 msg (CHR '' '') = [msg]" by (rule SplitN2_no_sep)
    with r assms show False
      by (simp add: articleish_def Let_def split: prod.splits if_splits)
  qed
qed

text \<open>
  C10. When \<open>Article\<close>, \<open>Head\<close> or \<open>Body\<close> has written its command and the status line
  carries the expected code (220, 221, 222), the helper splits the message at its first
  space: a message \<open>first rest\<close> whose first token parses as a 64-bit integer \<open>n\<close> gives
  \<open>(n, rest, reader)\<close>; a result without error is returned only when the message has a
  space; and a message without a space whose only token parses as an integer makes the
  helper read index 1 of a split of one element, which is an index-out-of-range panic,
  not an error.
\<close>

theorem article_status_message:
  assumes "(f, format, expected) \<in>
             {(Article, ''ARTICLE %s'', 220), (Head, ''HEAD %s'', 221), (Body, ''BODY %s'', 222)}"
    and "PrintfLine c format [StrArg specifier] = (Ret None, c0)"
    and "ReadLine c0 = (Ret (status_line expected msg, None), c1)"
  shows "(\<forall>n. CHR '' '' \<notin> set msg \<and> ParseInt msg = (n, None) \<longrightarrow>
            f c specifier = (Panic IndexOutOfRange, c1))
       \<and> (\<forall>first rest n. msg = first @ CHR '' '' # rest \<and> CHR '' '' \<notin> set first
              \<and> ParseInt first = (n, None) \<longrightarrow>
            f c specifier = (Ret (n, rest, Some (DotReader (conn c1)), None), c1))
       \<and> (\<forall>n s rd c'. f c specifier = (Ret (n, s, rd, None), c') \<longrightarrow> CHR '' '' \<in> set msg)"
proof -
  from assms(1) have range: "100 \<le> expected" "expected \<le> 999" by auto
  have rc: "ReadCodeLine c0 (int expected) = (Ret (int expected, msg, None), c1)"
    using ReadCodeLine_status_line [OF assms(3) range, of "int expected"] range by simp
  from assms(1) have f: "f c specifier = articleish c0 (int expected)"
    using assms(2) by (auto simp: Article_def Head_def Body_def article_cmd_def)
  show ?thesis unfolding f by (rule articleish_message [OF rc])
qed

text \<open>\<open>Article\<close> on the reply \<open>220 123\<close> panics; \<open>Head\<close> on the reply
  \<open>221 123 <a@b.c> head follows\<close> returns article 123 and the rest of the message.\<close>

theorem article_status_message_witness:
  "Article (session [''220 123'']) ''123''
     = (Panic IndexOutOfRange,
        (session [])\<lparr>wire := \<lparr>incoming = [], sent = [''ARTICLE 123''], wfaults = []\<rparr>\<rparr>)
   \<and> Head (session [''221 123 <a@b.c> head follows'']) ''123''
     = (Ret (123, ''<a@b.c> head follows'', Some (DotReader (textproto_NewConn Sock)), None),
        (session [])\<lparr>wire := \<lparr>incoming = [], sent = [''HEAD 123''], wfaults = []\<rparr>\<rparr>)"
proof -
  let ?a = "session [''220 123'']"
  let ?aw = "(session [''220 123''])\<lparr>wire := \<lparr>incoming = [''220 123''], sent = [''ARTICLE 123''], wfaults = []\<rparr>\<rparr>"
  let ?ar = "(session [])\<lparr>wire := \<lparr>incoming = [], sent = [''ARTICLE 123''], wfaults = []\<rparr>\<rparr>"
  have m: "(Article, ''ARTICLE %s'', 220) \<in>
             {(Article, ''ARTICLE %s'', 220::nat), (Head, ''HEAD %s'', 221), (Body, ''BODY %s'', 222)}"
    by simp
  have w: "PrintfLine ?a ''ARTICLE %s'' [StrArg ''123''] = (Ret None, ?aw)"
    by (simp add: PrintfLine_def session_def)
  have r: "ReadLine ?aw = (Ret (status_line 220 ''123'', None), ?ar)"
    by (simp add: ReadLine_def session_def status_line_def nat_str.simps digit_char_def)
  have p: "CHR '' '' \<notin> set ''123'' \<and> ParseInt ''123'' = (123, None)"
    by (simp add: strconv_defs)
  have a: "Article ?a ''123'' = (Panic IndexOutOfRange, ?ar)"
    using article_status_message [OF m w r, THEN conjunct1, rule_format, OF p] .
  let ?h = "session [''221 123 <a@b.c> head follows'']"
  let ?hw = "(session [''221 123 <a@b.c> head follows''])\<lparr>wire := \<lparr>incoming = [''221 123 <a@b.c> head follows''], sent = [''HEAD 123''], wfaults = []\<rparr>\<rparr>"
  let ?hr = "(session [])\<lparr>wire := \<lparr>incoming = [], sent = [''HEAD 123''], wfaults = []\<rparr>\<rparr>"
  have m': "(Head, ''HEAD %s'', 221) \<in>
             {(Article, ''ARTICLE %s'', 220::nat), (Head, ''HEAD %s'', 221), (Body, ''BODY %s'', 222)}"
    by simp
  have w': "PrintfLine ?h ''HEAD %s'' [StrArg ''123''] = (Ret None, ?hw)"
    by (simp add: PrintfLine_def session_def)
  have r': "ReadLine ?hw = (Ret (status_line 221 ''123 <a@b.c> head follows'', None), ?hr)"
    by (simp add: ReadLine_def session_def status_line_def nat_str.simps digit_char_def)
  have p': "''123 <a@b.c> head follows'' = ''123'' @ CHR '' '' # ''<a@b.c> head follows''
      \<and> CHR '' '' \<notin> set ''123'' \<and> ParseInt ''123'' = (123, None)"
    by (simp add: strconv_defs)
  have "Head ?h ''123'' = (Ret (123, ''<a@b.c> head follows'', Some (DotReader (conn ?hr)), None), ?hr)"
    using article_status_message [OF m' w' r', THEN conjunct2, THEN conjunct1, rule_format, OF p'] .
  then have b: "Head ?h ''123''
     = (Ret (123, ''<a@b.c> head follows'', Some (DotReader (textproto_NewConn Sock)), None), ?hr)"
    by (simp add: session_def)
  from a b show ?thesis by simp
qed

subsection \<open>\<open>Over\<close>: the command line\<close>

lemma Sprintf_no_percent: "CHR ''%'' \<notin> set s \<Longrightarrow> Sprintf s a = s"
  by (induction s a rule: Sprintf.induct) auto

lemma digit_char_in_digits: "d \<le> 9 \<Longrightarrow> digit_char d \<in> set ''0123456789''"
proof -
  assume "d \<le> 9"
  then have "d \<in> {0, 1, 2, 3, 4, 5, 6, 7, 8, 9}" by auto
  then show ?thesis by (auto simp: digit_char_def)
qed

lemma nat_str_digits: "set (nat_str n) \<subseteq> set ''0123456789''"
proof (induction n rule: nat_str.induct)
  case (1 n)
  show ?case
  proof (cases "n < 10")
    case True
    then have "nat_str n = [digit_char n]" by (subst nat_str.simps) simp
    moreover have "digit_char n \<in> set ''0123456789''"
      using True by (intro digit_char_in_digits) simp
    ultimately show ?thesis by simp
  next
    case False
    then have eq: "nat_str n = nat_str (n div 10) @ [digit_char (n mod 10)]"
      by (subst nat_str.simps) simp
    have "n mod 10 < 10" by simp
    then have "n mod 10 \<le> 9" by simp
    then have "digit_char (n mod 10) \<in> set ''0123456789''" by (rule digit_char_in_digits)
    moreover have "set (nat_str (n div 10)) \<subseteq> set ''0123456789''" using 1 False by simp
    ultimately show ?thesis unfolding eq by simp
  qed
qed

lemma itoa_no_percent: "CHR ''%'' \<notin> set (itoa i)"
proof -
  have "CHR ''%'' \<notin> set (nat_str n)" for n
    using nat_str_digits [of n] by auto
  then show ?thesis by (simp add: itoa_def)
qed

lemma Over_cmd_one: "Over_cmd [n] = Some (''OVER '' @ itoa n)"
  by (simp add: Over_cmd_def)

lemma Over_cmd_two: "Over_cmd [a, b] = Some (''OVER '' @ itoa a @ ''-'' @ itoa b)"
  by (simp add: Over_cmd_def)

lemma Over_cmd_many: "3 \<le> length args \<Longrightarrow> Over_cmd args = None"
  by (auto simp: Over_cmd_def split: list.splits)

lemma Over_cmd_no_percent: "Over_cmd args = Some cmd \<Longrightarrow> CHR ''%'' \<notin> set cmd"
  by (auto simp: Over_cmd_def itoa_no_percent split: list.splits)

lemma sent_ReadLine: "sent (wire (snd (ReadLine c))) = sent (wire c)"
  by (simp add: ReadLine_def split: io_status.splits list.splits)

lemma sent_ReadCodeLine: "sent (wire (snd (ReadCodeLine c e))) = sent (wire c)"
  using sent_ReadLine [of c]
  by (auto simp: ReadCodeLine_def split: prod.splits exec.splits option.splits)

lemma sent_ReadDotLines: "sent (wire (snd (ReadDotLines c))) = sent (wire c)"
  by (simp add: ReadDotLines_def split: io_status.splits prod.splits)

lemma sent_PrintfLine:
  "sent (wire (snd (PrintfLine c format a)))
     = sent (wire c) @ (if can_write c then [Sprintf format a] else [])"
  by (simp add: PrintfLine_def can_write_def split: io_status.splits list.splits)

lemma sent_Command:
  "sent (wire (snd (Command c cmd e)))
     = sent (wire c) @ (if can_write c then [Sprintf cmd []] else [])"
  using sent_PrintfLine [of c cmd "[]"] sent_ReadCodeLine [of "snd (PrintfLine c cmd [])" e]
  by (auto simp: Command_def split: prod.splits exec.splits option.splits)

lemma sent_asLines:
  "sent (wire (snd (asLines c cmd e)))
     = sent (wire c) @ (if can_write c then [Sprintf cmd []] else [])"
  using sent_Command [of c cmd e] sent_ReadDotLines [of "snd (Command c cmd e)"]
  by (auto simp: asLines_def split: prod.splits exec.splits option.splits)

lemma Over_client: "Over_cmd args = Some cmd \<Longrightarrow> snd (Over c args) = snd (asLines c cmd 224)"
  by (auto simp: Over_def split: prod.splits exec.splits option.splits)

lemma sent_Over:
  assumes "Over_cmd args = Some cmd"
  shows "sent (wire (snd (Over c args))) = sent (wire c) @ (if can_write c then [cmd] else [])"
  using sent_asLines [of c cmd 224] Over_cmd_no_percent [OF assms]
  by (simp add: Over_client [OF assms] Sprintf_no_percent)

text \<open>
  C7. \<open>Over\<close> with no argument sends exactly the line \<open>OVER\<close>, with one argument \<open>n\<close>
  exactly \<open>OVER n\<close>, with two arguments \<open>a\<close> and \<open>b\<close> exactly \<open>OVER a-b\<close> (one line is
  added to what the client has sent, when the write succeeds, and none otherwise); with
  three or more arguments it returns the argument-count error and the client,
  its stream included, is unchanged.
\<close>

theorem Over_command_line:
  "sent (wire (snd (Over c []))) = sent (wire c) @ (if can_write c then [''OVER''] else [])
   \<and> sent (wire (snd (Over c [n])))
       = sent (wire c) @ (if can_write c then [''OVER '' @ itoa n] else [])
   \<and> sent (wire (snd (Over c [a, b])))
       = sent (wire c) @ (if can_write c then [''OVER '' @ itoa a @ ''-'' @ itoa b] else [])
   \<and> (3 \<le> length args \<longrightarrow>
        Over c args = (Ret ([], Some (ErrorString
          ''Invalid arguments, either 1 or 2 numbers for an item, for a range'')), c))"
proof -
  have 0: "Over_cmd [] = Some ''OVER''" by (simp add: Over_cmd_def)
  have many: "Over c args = (Ret ([], Some (ErrorString
          ''Invalid arguments, either 1 or 2 numbers for an item, for a range'')), c)"
    if "3 \<le> length args"
    using Over_cmd_many [OF that] by (simp add: Over_def)
  show ?thesis
    using sent_Over [OF 0, of c] sent_Over [OF Over_cmd_one, of c n]
      sent_Over [OF Over_cmd_two, of c a b] many
    by simp
qed

theorem Over_command_line_witness:
  "sent (wire (snd (Over (session [''224 overview follows'', ''.'']) [3, 40]))) = [''OVER 3-40'']
   \<and> sent (wire (snd (Over (session [''224 overview follows'', ''.'']) [7]))) = [''OVER 7'']
   \<and> Over (session [''224 overview follows'', ''.'']) [1, 2, 3]
      = (Ret ([], Some (ErrorString
           ''Invalid arguments, either 1 or 2 numbers for an item, for a range'')),
         session [''224 overview follows'', ''.''])"
proof -
  let ?c = "session [''224 overview follows'', ''.'']"
  have w: "can_write ?c" by (simp add: can_write_def session_def)
  have s: "sent (wire ?c) = []" by (simp add: session_def)
  have i: "''OVER '' @ itoa 3 @ ''-'' @ itoa 40 = ''OVER 3-40''" "''OVER '' @ itoa 7 = ''OVER 7''"
    by (simp_all add: itoa_def nat_str.simps digit_char_def)
  have l: "3 \<le> length [1, 2, 3::int]" by simp
  show ?thesis
    using Over_command_line [of ?c 7 3 40 "[1, 2, 3]"] w s i l by simp
qed

end
